theory Spec2Isabelle
  imports Complex_Main "HOL-Library.Option_ord"
begin

section \<open>Values shared by the search drivers\<close>

text \<open>
  A code is a sequence of 0/1 entries. Scores are the numbers an objective returns,
  taken as real numbers (NaN and the rounding of each arithmetic operation are outside
  this development). A best score starts at \<open>-np.inf\<close>: \<open>None\<close> stands for
  minus infinity and \<open>Some x\<close> for the number \<open>x\<close>, ordered with \<open>None\<close> below
  every \<open>Some x\<close>.
\<close>

type_synonym code = "int list"

type_synonym score = "real option"

datatype error =
  ValueError | IndexError | ZeroDivisionError | AssertionError | StopIteration | RuntimeError

text \<open>Python's \<open>int(x)\<close> on a float truncates towards zero.\<close>

definition py_int :: "real \<Rightarrow> int" where
  "py_int x = (if 0 \<le> x then \<lfloor>x\<rfloor> else \<lceil>x\<rceil>)"

text \<open>
  An objective function of \<open>jeweler.objective\<close>: its \<open>__name__\<close>, what it returns on
  one code, and what it returns on a batch (a stack of codes).
\<close>

record objective =
  obj_name :: string
  obj_code :: "code \<Rightarrow> real"
  obj_batch :: "code list \<Rightarrow> real list"

text \<open>
  The arguments of one call of \<open>Archiver.update\<close>. Every call in \<open>search.py\<close> has the
  shape \<open>f.update(objective_function.__name__, code, score, weight=...)\<close>;
  \<open>arg_searched_count\<close> is \<open>None\<close> when the call passes no count.
\<close>

record update_args =
  arg_objective_name :: string
  arg_code :: "code option"
  arg_score :: score
  arg_weight :: int
  arg_searched_count :: "nat option"

text \<open>What a driver prints into a result file: the count, the code and (legacy Lyndon driver) the score.\<close>

record file_text =
  txt_count :: nat
  txt_code :: code
  txt_score :: "real option"

datatype path = Path string | Length_file string nat

text \<open>
  The effects of a driver, in program order: a call of the objective function with the
  codes it is given, a call of \<open>Archiver.update\<close>, and a file opened with mode \<open>w\<close>
  and printed into.
\<close>

datatype event =
  Objective "code list"
  | Update update_args
  | Write_file path file_text

fun is_Update :: "event \<Rightarrow> bool" where
  "is_Update (Update u) = True"
| "is_Update _ = False"

fun is_Objective :: "event \<Rightarrow> bool" where
  "is_Objective (Objective b) = True"
| "is_Objective _ = False"

fun is_Write_file :: "event \<Rightarrow> bool" where
  "is_Write_file (Write_file p t) = True"
| "is_Write_file _ = False"

text \<open>
  \<open>np.argmax\<close>: the first index of a greatest entry. The callers raise
  \<open>ValueError\<close> on an empty sequence before they reach it.
\<close>

fun argmax :: "real list \<Rightarrow> nat" where
  "argmax [] = 0"
| "argmax [x] = 0"
| "argmax (x # y # ys) = (let j = argmax (y # ys) in if (y # ys) ! j \<le> x then 0 else Suc j)"

section \<open>Brute force search: \<open>bfs\<close> and \<open>find_codes_bfs\<close>\<close>

text \<open>
  \<open>itertools.combinations(xs, k)\<close>: the \<open>k\<close>-element subsequences of \<open>xs\<close> in
  lexicographic order of their positions.
\<close>

fun combinations :: "'a list \<Rightarrow> nat \<Rightarrow> 'a list list" where
  "combinations xs 0 = [[]]"
| "combinations [] (Suc k) = []"
| "combinations (x # xs) (Suc k) = map ((#) x) (combinations xs k) @ combinations xs (Suc k)"

text \<open>One row of \<open>codes = np.zeros(...); codes[rows, indices] = 1\<close>.\<close>

definition indices_to_code :: "nat \<Rightarrow> nat list \<Rightarrow> code" where
  "indices_to_code L ind = map (\<lambda>j. if j \<in> set ind then 1 else 0) [0..<L]"

record bfs_state =
  bfs_code_generator :: "nat list list"
  bfs_code_best :: "code option"
  bfs_score_best :: score
  bfs_num_searched_codes :: nat
  bfs_log :: "event list"

text \<open>
  The body of the batch loop after the \<open>break\<close> test, for a non-empty batch
  \<open>indices\<close>. \<open>rate\<close> is the rating of one row,
  \<open>np.min(np.abs(dft)) - np.var(dft)\<close>, which the source computes row by row
  (\<open>axis=1\<close>).
\<close>

definition bfs_batch ::
  "nat \<Rightarrow> string option \<Rightarrow> (code \<Rightarrow> real) \<Rightarrow> nat list list \<Rightarrow> bfs_state \<Rightarrow> bfs_state" where
  "bfs_batch L filename rate indices st =
     (let st1 = st\<lparr>bfs_num_searched_codes := bfs_num_searched_codes st + length indices\<rparr>;
          codes = map (indices_to_code L) indices;
          score = map rate codes;
          best = argmax score
      in if bfs_score_best st1 < Some (score ! best)
         then st1\<lparr>bfs_code_best := Some (codes ! best),
                  bfs_score_best := Some (score ! best),
                  bfs_log := bfs_log st1 @
                    (case filename of
                       None \<Rightarrow> []
                     | Some fn \<Rightarrow>
                         [Write_file (Path fn)
                            \<lparr>txt_count = bfs_num_searched_codes st1,
                             txt_code = codes ! best,
                             txt_score = None\<rparr>])\<rparr>
         else st1)"

text \<open>
  \<open>for i in range(0, num_batches)\<close>: the first argument counts the iterations left;
  \<open>itertools.islice\<close> takes the next \<open>num_codes_in_batch\<close> combinations off the
  generator.
\<close>

fun bfs_loop ::
  "nat \<Rightarrow> nat \<Rightarrow> nat \<Rightarrow> string option \<Rightarrow> (code \<Rightarrow> real) \<Rightarrow> bfs_state \<Rightarrow> bfs_state" where
  "bfs_loop 0 L num_codes_in_batch filename rate st = st"
| "bfs_loop (Suc n) L num_codes_in_batch filename rate st =
     (let indices = take num_codes_in_batch (bfs_code_generator st);
          st0 = st\<lparr>bfs_code_generator := drop num_codes_in_batch (bfs_code_generator st)\<rparr>
      in if length indices = 0 then st0
         else bfs_loop n L num_codes_in_batch filename rate (bfs_batch L filename rate indices st0))"

text \<open>
  \<open>bfs\<close> (and \<open>find_codes_bfs\<close>, which has the same body). The value returned is
  \<open>bfs_code_best\<close> of the final state. \<open>itertools.combinations\<close> raises
  \<open>ValueError\<close> on a negative \<open>k\<close>, \<open>factorial\<close> on a negative argument, and
  \<open>batch_size // L\<close> raises \<open>ZeroDivisionError\<close> for \<open>L = 0\<close>. The quotient
  under \<open>np.ceil\<close> is taken exactly.
\<close>

definition bfs :: "int \<Rightarrow> real \<Rightarrow> int \<Rightarrow> string option \<Rightarrow> (code \<Rightarrow> real) \<Rightarrow> error + bfs_state" where
  "bfs L density batch_size filename rate =
     (let k = py_int (of_int L * density) in
      if k < 0 then Inl ValueError
      else if L < 0 \<or> L - k < 0 then Inl ValueError
      else if L = 0 then Inl ZeroDivisionError
      else
        let code_generator = combinations [0..<nat L] (nat k);
            num_combinations = (fact (nat L) :: nat) div (fact (nat k) * fact (nat (L - k)));
            num_codes_in_batch = nat (max (batch_size div L) 1);
            num_batches = nat \<lceil>real num_combinations / real num_codes_in_batch\<rceil>
        in Inr (bfs_loop num_batches (nat L) num_codes_in_batch filename rate
                  \<lparr>bfs_code_generator = code_generator,
                   bfs_code_best = None,
                   bfs_score_best = None,
                   bfs_num_searched_codes = 0,
                   bfs_log = []\<rparr>))"

section \<open>Loops that can raise\<close>

text \<open>
  A \<open>for\<close> loop whose body may raise: the body maps the state and the loop variable
  to the next state (\<open>Inr\<close>) or to the exception raised together with the state
  reached (\<open>Inl\<close>), and an exception ends the loop.
\<close>

fun for_each :: "('s \<Rightarrow> 'a \<Rightarrow> error \<times> 's + 's) \<Rightarrow> 's \<Rightarrow> 'a list \<Rightarrow> error \<times> 's + 's" where
  "for_each body st [] = Inr st"
| "for_each body st (x # xs) =
     (case body st x of Inl e \<Rightarrow> Inl e | Inr st' \<Rightarrow> for_each body st' xs)"

section \<open>Lyndon word search: \<open>lyndon\<close> and \<open>find_codes_lyndon\<close>\<close>

text \<open>
  The per-length statistics are arrays with \<open>L + 1\<close> entries.
  \<open>num_allowed_ones\<close> is \<open>tuple(int(n * density) for n in range(L + 1))\<close>.
\<close>

record lyndon_state =
  ly_score_best :: "score list"
  ly_num_searched_codes :: "nat list"
  ly_log :: "event list"

definition num_allowed_ones :: "int \<Rightarrow> real \<Rightarrow> int list" where
  "num_allowed_ones L density = map (\<lambda>n. py_int (of_nat n * density)) [0..<nat (L + 1)]"

text \<open>
  The body of the loop over the generated words in \<open>lyndon\<close>. The three arrays have
  the same number of entries, so an index beyond them raises \<open>IndexError\<close> at
  \<open>num_allowed_ones[len(code)]\<close>, which Python evaluates only when
  \<open>len(code) >= K\<close> holds. \<open>score_best\<close> is an array of \<open>float32\<close>: storing
  a score rounds it, which is the function \<open>f32\<close>; the comparison and the call of
  \<open>update\<close> use the score as the objective returned it.
\<close>

definition lyndon_candidate ::
  "int \<Rightarrow> objective \<Rightarrow> (real \<Rightarrow> real) \<Rightarrow> int list \<Rightarrow> lyndon_state \<Rightarrow> code \<Rightarrow>
     error \<times> lyndon_state + lyndon_state" where
  "lyndon_candidate K objective_function f32 allowed st code =
     (let n = length code in
      if int n < K then Inr st
      else if length allowed \<le> n then Inl (IndexError, st)
      else if sum_list code \<noteq> allowed ! n then Inr st
      else
        let st1 = st\<lparr>ly_num_searched_codes :=
                         (ly_num_searched_codes st)[n := ly_num_searched_codes st ! n + 1],
                       ly_log := ly_log st @ [Objective [code]]\<rparr>;
            score = obj_code objective_function code
        in if ly_score_best st1 ! n < Some score
           then Inr (st1\<lparr>ly_score_best := (ly_score_best st1)[n := Some (f32 score)],
                          ly_log := ly_log st1 @
                            [Update \<lparr>arg_objective_name = obj_name objective_function,
                                     arg_code = Some code,
                                     arg_score = Some score,
                                     arg_weight = allowed ! n,
                                     arg_searched_count = None\<rparr>]\<rparr>)
           else Inr st1)"

text \<open>
  The same body in the legacy \<open>find_codes_lyndon\<close>: the objective is the module's
  \<open>cost_function\<close> and an improvement is printed into the file
  \<open>os.path.join(output_dir, f"{len(code)}.txt")\<close>.
\<close>

definition find_codes_lyndon_candidate ::
  "int \<Rightarrow> string \<Rightarrow> (code \<Rightarrow> real) \<Rightarrow> (real \<Rightarrow> real) \<Rightarrow> int list \<Rightarrow> lyndon_state \<Rightarrow> code \<Rightarrow>
     error \<times> lyndon_state + lyndon_state" where
  "find_codes_lyndon_candidate K output_dir cost_function f32 allowed st code =
     (let n = length code in
      if int n < K then Inr st
      else if length allowed \<le> n then Inl (IndexError, st)
      else if sum_list code \<noteq> allowed ! n then Inr st
      else
        let st1 = st\<lparr>ly_num_searched_codes :=
                         (ly_num_searched_codes st)[n := ly_num_searched_codes st ! n + 1],
                       ly_log := ly_log st @ [Objective [code]]\<rparr>;
            score = cost_function code
        in if ly_score_best st1 ! n < Some score
           then Inr (st1\<lparr>ly_score_best := (ly_score_best st1)[n := Some (f32 score)],
                          ly_log := ly_log st1 @
                            [Write_file (Length_file output_dir n)
                               \<lparr>txt_count = ly_num_searched_codes st1 ! n,
                                txt_code = code,
                                txt_score = Some score\<rparr>]\<rparr>)
           else Inr st1)"

text \<open>
  The start of both drivers: the arrays, and the word \<open>w\<close> the generator is seeded
  with. \<open>np.full\<close> raises \<open>ValueError\<close> on a negative size and
  \<open>num_allowed_ones[-1]\<close> raises \<open>IndexError\<close> on the empty tuple.
  \<open>LengthLimitedLyndonWords\<close> of \<open>jeweler.lyndon\<close> is a parameter: the list of
  the words it generates from its three arguments.
\<close>

definition lyndon_init :: "int \<Rightarrow> lyndon_state" where
  "lyndon_init L =
     \<lparr>ly_score_best = replicate (nat (L + 1)) None,
      ly_num_searched_codes = replicate (nat (L + 1)) 0,
      ly_log = []\<rparr>"

definition lyndon_seed :: "int \<Rightarrow> int list \<Rightarrow> code" where
  "lyndon_seed L allowed = replicate (nat (L - last allowed)) 0 @ replicate (nat (last allowed)) 1"

definition lyndon ::
  "int \<Rightarrow> int \<Rightarrow> objective \<Rightarrow> real \<Rightarrow> (real \<Rightarrow> real) \<Rightarrow> (int \<Rightarrow> int \<Rightarrow> code \<Rightarrow> code list) \<Rightarrow>
     error \<times> lyndon_state + lyndon_state" where
  "lyndon K L objective_function density f32 LengthLimitedLyndonWords =
     (if L + 1 < 0 then Inl (ValueError, lyndon_init L)
      else if num_allowed_ones L density = [] then Inl (IndexError, lyndon_init L)
      else for_each (lyndon_candidate K objective_function f32 (num_allowed_ones L density))
             (lyndon_init L)
             (LengthLimitedLyndonWords 2 L (lyndon_seed L (num_allowed_ones L density))))"

definition find_codes_lyndon ::
  "int \<Rightarrow> int \<Rightarrow> string \<Rightarrow> real \<Rightarrow> (code \<Rightarrow> real) \<Rightarrow> (real \<Rightarrow> real) \<Rightarrow>
     (int \<Rightarrow> int \<Rightarrow> code \<Rightarrow> code list) \<Rightarrow> error \<times> lyndon_state + lyndon_state" where
  "find_codes_lyndon K L output_dir density cost_function f32 LengthLimitedLyndonWords =
     (if L + 1 < 0 then Inl (ValueError, lyndon_init L)
      else if num_allowed_ones L density = [] then Inl (IndexError, lyndon_init L)
      else for_each
             (find_codes_lyndon_candidate K output_dir cost_function f32 (num_allowed_ones L density))
             (lyndon_init L)
             (LengthLimitedLyndonWords 2 L (lyndon_seed L (num_allowed_ones L density))))"

section \<open>Batches of fixed-content codes: \<open>bracelet\<close> and \<open>necklace\<close>\<close>

text \<open>
  The lines both batch loops share: rate the batch, take the \<open>argmax\<close> (which raises
  \<open>ValueError\<close> on an empty sequence) and replace the best score and code on a
  strict improvement (\<open>batch[best]\<close> raises \<open>IndexError\<close> beyond the batch).
\<close>

definition score_batch ::
  "objective \<Rightarrow> code list \<Rightarrow> code option \<Rightarrow> score \<Rightarrow> error + code option \<times> score" where
  "score_batch objective_function batch code_best score_best =
     (let scores = obj_batch objective_function batch in
      if scores = [] then Inl ValueError
      else
        let best = argmax scores in
        if score_best < Some (scores ! best)
        then if best < length batch then Inr (Some (batch ! best), Some (scores ! best))
             else Inl IndexError
        else Inr (code_best, score_best))"

text \<open>The start index of the Python slice \<open>xs[i:]\<close> of a list with \<open>n\<close> entries.\<close>

definition slice_start :: "nat \<Rightarrow> int \<Rightarrow> nat" where
  "slice_start n i = (if i < 0 then nat (int n + i) else min n (nat i))"

record bracelet_state =
  br_codes :: "code list"
  br_code_best :: "code option"
  br_score_best :: score
  br_log :: "event list"

text \<open>
  One iteration of the batch loop of \<open>bracelet\<close>:
  \<open>batch = codes[-batch_size:]; del codes[-batch_size:]\<close> and the shared lines.
\<close>

definition bracelet_batch :: "objective \<Rightarrow> int \<Rightarrow> bracelet_state \<Rightarrow> error \<times> bracelet_state + bracelet_state" where
  "bracelet_batch objective_function batch_size st =
     (let i = slice_start (length (br_codes st)) (- batch_size);
          batch = drop i (br_codes st);
          st1 = st\<lparr>br_codes := take i (br_codes st),
                     br_log := br_log st @ [Objective batch]\<rparr>
      in case score_batch objective_function batch (br_code_best st1) (br_score_best st1) of
           Inl e \<Rightarrow> Inl (e, st1)
         | Inr (c, s) \<Rightarrow> Inr (st1\<lparr>br_code_best := c, br_score_best := s\<rparr>))"

text \<open>
  The body of the loop over the lengths in \<open>bracelet\<close>; the state of that loop is the
  log. \<open>bracelet_fc\<close> of \<open>jeweler.bracelet\<close> is a parameter: the list it returns.
  \<open>len(codes) // batch_size\<close> raises \<open>ZeroDivisionError\<close> for a batch size of 0,
  and \<open>range\<close> of a number below 1 is empty.
\<close>

definition bracelet_length ::
  "objective \<Rightarrow> real \<Rightarrow> int \<Rightarrow> (int \<Rightarrow> int \<Rightarrow> int list \<Rightarrow> code list) \<Rightarrow> event list \<Rightarrow> int \<Rightarrow>
     error \<times> event list + event list" where
  "bracelet_length objective_function density batch_size bracelet_fc evs L =
     (let k = py_int (of_int L * density);
          codes = bracelet_fc L 2 [L - k, k]
      in if batch_size = 0 then Inl (ZeroDivisionError, evs)
         else
           case for_each (\<lambda>st _. bracelet_batch objective_function batch_size st)
                  \<lparr>br_codes = codes, br_code_best = None, br_score_best = None, br_log = evs\<rparr>
                  [0..<nat (int (length codes) div batch_size + 1)] of
             Inl (e, st) \<Rightarrow> Inl (e, br_log st)
           | Inr st \<Rightarrow>
               Inr (br_log st @
                 [Update \<lparr>arg_objective_name = obj_name objective_function,
                          arg_code = br_code_best st,
                          arg_score = br_score_best st,
                          arg_weight = k,
                          arg_searched_count = None\<rparr>]))"

definition bracelet ::
  "int \<Rightarrow> int \<Rightarrow> objective \<Rightarrow> real \<Rightarrow> int \<Rightarrow> (int \<Rightarrow> int \<Rightarrow> int list \<Rightarrow> code list) \<Rightarrow>
     error \<times> event list + event list" where
  "bracelet K L objective_function density batch_size bracelet_fc =
     for_each (bracelet_length objective_function density batch_size bracelet_fc) [] [K..L]"

text \<open>
  \<open>_necklace_chunk\<close>, as the list of what the successive \<open>next\<close> calls give until
  the generator is exhausted: a chunk, or the exception raised. The necklaces of
  SageMath have the letters 1 and 2 and, for one content, one length; \<open>first()\<close> of
  an empty set raises inside the generator, which Python reports as
  \<open>RuntimeError\<close>. \<open>np.empty\<close> raises \<open>ValueError\<close> on a negative size, and
  \<open>chunk[i] = x\<close> raises \<open>IndexError\<close> when the chunk has no row \<open>i\<close>.
\<close>

fun necklace_chunk_loop :: "nat \<Rightarrow> int list list \<Rightarrow> int list list \<Rightarrow> (error + code list) list" where
  "necklace_chunk_loop n chunk [] =
     (if length chunk < n then [Inr (map (map (\<lambda>v. v - 1)) chunk)] else [])"
| "necklace_chunk_loop n chunk (x # xs) =
     (if n \<le> length chunk then [Inl IndexError]
      else if n \<le> Suc (length chunk)
      then Inr (map (map (\<lambda>v. v - 1)) (chunk @ [x])) # necklace_chunk_loop n [] xs
      else necklace_chunk_loop n (chunk @ [x]) xs)"

definition necklace_chunk :: "int list list \<Rightarrow> int \<times> int \<Rightarrow> (error + code list) list" where
  "necklace_chunk necklaces chunksize =
     (case necklaces of
        [] \<Rightarrow> [Inl RuntimeError]
      | x # xs \<Rightarrow>
          if snd chunksize \<noteq> int (length x) then [Inl AssertionError]
          else if fst chunksize < 0 then [Inl ValueError]
          else necklace_chunk_loop (nat (fst chunksize)) [] necklaces)"

record necklace_state =
  nk_chunks :: "(error + code list) list"
  nk_code_best :: "code option"
  nk_score_best :: score
  nk_log :: "event list"

text \<open>One iteration of the batch loop of \<open>necklace\<close>: \<open>batch = next(chunks)\<close> and the shared lines.\<close>

definition necklace_batch :: "objective \<Rightarrow> necklace_state \<Rightarrow> error \<times> necklace_state + necklace_state" where
  "necklace_batch objective_function st =
     (case nk_chunks st of
        [] \<Rightarrow> Inl (StopIteration, st)
      | Inl e # rest \<Rightarrow> Inl (e, st\<lparr>nk_chunks := []\<rparr>)
      | Inr batch # rest \<Rightarrow>
          let st1 = st\<lparr>nk_chunks := rest, nk_log := nk_log st @ [Objective batch]\<rparr> in
          case score_batch objective_function batch (nk_code_best st1) (nk_score_best st1) of
            Inl e \<Rightarrow> Inl (e, st1)
          | Inr (c, s) \<Rightarrow> Inr (st1\<lparr>nk_code_best := c, nk_score_best := s\<rparr>))"

text \<open>
  The body of the loop over the lengths in \<open>necklace\<close>. \<open>Necklaces\<close> of SageMath
  is a parameter: the list of the necklaces of a content, whose length is
  \<open>cardinality()\<close>.
\<close>

definition necklace_length ::
  "objective \<Rightarrow> real \<Rightarrow> int \<Rightarrow> (int list \<Rightarrow> int list list) \<Rightarrow> event list \<Rightarrow> int \<Rightarrow>
     error \<times> event list + event list" where
  "necklace_length objective_function density batch_size Necklaces evs L =
     (let k = py_int (of_int L * density);
          codes = Necklaces [L - k, k];
          ncodes = length codes;
          chunks = necklace_chunk codes (batch_size, L)
      in if batch_size = 0 then Inl (ZeroDivisionError, evs)
         else
           case for_each (\<lambda>st _. necklace_batch objective_function st)
                  \<lparr>nk_chunks = chunks, nk_code_best = None, nk_score_best = None, nk_log = evs\<rparr>
                  [0..<nat (int ncodes div batch_size + 1)] of
             Inl (e, st) \<Rightarrow> Inl (e, nk_log st)
           | Inr st \<Rightarrow>
               Inr (nk_log st @
                 [Update \<lparr>arg_objective_name = obj_name objective_function,
                          arg_code = nk_code_best st,
                          arg_score = nk_score_best st,
                          arg_weight = k,
                          arg_searched_count = None\<rparr>]))"

definition necklace ::
  "int \<Rightarrow> int \<Rightarrow> objective \<Rightarrow> real \<Rightarrow> int \<Rightarrow> (int list \<Rightarrow> int list list) \<Rightarrow>
     error \<times> event list + event list" where
  "necklace K L objective_function density batch_size Necklaces =
     for_each (necklace_length objective_function density batch_size Necklaces) [] [K..L]"

section \<open>Notions used to state and prove the properties\<close>



text \<open>
  An objective, a bracelet generator and a necklace generator to run the drivers on:
  the objective returns the second entry of a code.
\<close>

definition example_objective :: objective where
  "example_objective =
     \<lparr>obj_name = ''second_entry'',
      obj_code = (\<lambda>c. of_int (c ! 1)),
      obj_batch = map (\<lambda>c. of_int (c ! 1))\<rparr>"

definition example_bracelet_fc :: "int \<Rightarrow> int \<Rightarrow> int list \<Rightarrow> code list" where
  "example_bracelet_fc n k content =
     (if content = [2, 2] then [[0, 0, 1, 1], [0, 1, 0, 1]]
      else if content = [3, 3] then [[0, 1, 0, 1, 0, 1], [0, 0, 1, 0, 1, 1], [0, 0, 0, 1, 1, 1]]
      else [])"

definition example_Necklaces :: "int list \<Rightarrow> int list list" where
  "example_Necklaces content =
     (if content = [2, 2] then [[1, 1, 2, 2], [1, 2, 1, 2]] else [])"

text \<open>
  What a log persists, in order: the code and score of every \<open>update\<close> call and
  of every file written.
\<close>

fun persisted :: "event list \<Rightarrow> (code option \<times> score) list" where
  "persisted [] = []"
| "persisted (Objective b # es) = persisted es"
| "persisted (Update u # es) = (arg_code u, arg_score u) # persisted es"
| "persisted (Write_file p t # es) = (Some (txt_code t), txt_score t) # persisted es"

text \<open>
  What is compared between the two Lyndon drivers: the best scores, the counts, the
  calls of the objective in order, and what is persisted.
\<close>

definition lyndon_stats :: "lyndon_state \<Rightarrow> score list \<times> nat list \<times> event list \<times> (code option \<times> score) list" where
  "lyndon_stats st =
     (ly_score_best st, ly_num_searched_codes st, filter is_Objective (ly_log st),
      persisted (ly_log st))"

definition lyndon_outcome ::
  "error \<times> lyndon_state + lyndon_state \<Rightarrow>
     error \<times> (score list \<times> nat list \<times> event list \<times> (code option \<times> score) list) +
     (score list \<times> nat list \<times> event list \<times> (code option \<times> score) list)" where
  "lyndon_outcome r = (case r of Inl (e, st) \<Rightarrow> Inl (e, lyndon_stats st) | Inr st \<Rightarrow> Inr (lyndon_stats st))"

text \<open>A list of words for the Lyndon drivers to run on.\<close>

definition example_words :: "int \<Rightarrow> int \<Rightarrow> code \<Rightarrow> code list" where
  "example_words a L w = [[0, 0, 1, 1], [0, 0, 1], [0, 1], [0, 1, 1], [1]]"

text \<open>The number of codes a log shows as passed to the objective.\<close>

fun searched :: "event list \<Rightarrow> nat" where
  "searched [] = 0"
| "searched (Objective b # es) = length b + searched es"
| "searched (Update u # es) = searched es"
| "searched (Write_file p t # es) = searched es"

text \<open>Every best score stored by a Lyndon driver is a value of the rounding \<open>f32\<close>.\<close>

definition rounded :: "(real \<Rightarrow> real) \<Rightarrow> lyndon_state \<Rightarrow> bool" where
  "rounded f32 st \<longleftrightarrow> list_all (\<lambda>b. case b of None \<Rightarrow> True | Some x \<Rightarrow> f32 x = x) (ly_score_best st)"

text \<open>States to run single iterations on.\<close>

definition example_bfs_state :: bfs_state where
  "example_bfs_state =
     \<lparr>bfs_code_generator = [], bfs_code_best = Some [1, 1, 0], bfs_score_best = Some 1,
      bfs_num_searched_codes = 1, bfs_log = []\<rparr>"

definition example_bracelet_state :: bracelet_state where
  "example_bracelet_state =
     \<lparr>br_codes = [[0, 1, 0, 1, 0, 1], [0, 0, 1, 0, 1, 1], [0, 0, 0, 1, 1, 1]],
      br_code_best = None, br_score_best = None, br_log = []\<rparr>"

definition example_necklace_state :: necklace_state where
  "example_necklace_state =
     \<lparr>nk_chunks = [Inr [[0, 0, 1, 1], [0, 1, 0, 1]], Inr []],
      nk_code_best = None, nk_score_best = None, nk_log = []\<rparr>"

text \<open>The state a loop or a driver ends in, whether it returns or raises.\<close>

definition final :: "error \<times> 's + 's \<Rightarrow> 's" where
  "final r = (case r of Inl (e, st) \<Rightarrow> st | Inr st \<Rightarrow> st)"



section \<open>Lemmas on \<open>argmax\<close>\<close>







section \<open>Lemmas on the brute force search\<close>

lemma bfs_batch_generator [simp]:
  "bfs_code_generator (bfs_batch L fn rate ind st) = bfs_code_generator st"
  by (simp add: bfs_batch_def Let_def)








lemma length_indices_to_code [simp]: "length (indices_to_code L ind) = L"
  by (simp add: indices_to_code_def)

















section \<open>The batches of \<open>bracelet\<close> and \<open>necklace\<close>\<close>

text \<open>
  Claim C9 says that every batch that \<open>bracelet\<close> and \<open>necklace\<close> pass to the
  objective and to \<open>argmax\<close> is non-empty, also when the number of codes is a
  multiple of \<open>batch_size\<close>. The drivers run \<open>len(codes) // batch_size + 1\<close>
  iterations: with two codes of length 4 and \<open>batch_size = 2\<close> the second iteration
  passes the empty batch to the objective, and \<open>argmax\<close> raises \<open>ValueError\<close>
  before any call of \<open>update\<close>.
\<close>

theorem empty_final_batch:
  "bracelet 4 4 example_objective (1/2) 2 example_bracelet_fc =
     Inl (ValueError, [Objective [[0, 0, 1, 1], [0, 1, 0, 1]], Objective []]) \<and>
   necklace 4 4 example_objective (1/2) 2 example_Necklaces =
     Inl (ValueError, [Objective [[0, 0, 1, 1], [0, 1, 0, 1]], Objective []])"
  by code_simp

section \<open>The two Lyndon drivers\<close>

lemma persisted_append [simp]: "persisted (xs @ ys) = persisted xs @ persisted ys"
  by (induction xs rule: persisted.induct) auto

lemma for_each_rel:
  assumes "R s t"
    and "\<And>s t x. x \<in> set xs \<Longrightarrow> R s t \<Longrightarrow> rel_sum (rel_prod (=) R) R (f s x) (g t x)"
  shows "rel_sum (rel_prod (=) R) R (for_each f s xs) (for_each g t xs)"
  using assms
proof (induction xs arbitrary: s t)
  case Nil
  then show ?case by simp
next
  case (Cons x xs)
  have r: "rel_sum (rel_prod (=) R) R (f s x) (g t x)" using Cons.prems by simp
  show ?case
  proof (cases "f s x")
    case (Inl a)
    with r show ?thesis by (cases "g t x") auto
  next
    case (Inr s')
    with r obtain t' where t': "g t x = Inr t'" "R s' t'" by (cases "g t x") auto
    have "rel_sum (rel_prod (=) R) R (for_each f s' xs) (for_each g t' xs)"
      using t'(2) Cons.prems(2) by (intro Cons.IH) auto
    with Inr t'(1) show ?thesis by simp
  qed
qed

lemma lyndon_candidate_stats:
  assumes "lyndon_stats s = lyndon_stats t"
  shows "rel_sum (rel_prod (=) (\<lambda>s t. lyndon_stats s = lyndon_stats t))
           (\<lambda>s t. lyndon_stats s = lyndon_stats t)
           (find_codes_lyndon_candidate K out cost f32 allowed s c)
           (lyndon_candidate K \<lparr>obj_name = nm, obj_code = cost, obj_batch = ob\<rparr> f32 allowed t c)"
  using assms
  by (simp add: find_codes_lyndon_candidate_def lyndon_candidate_def lyndon_stats_def Let_def)

text \<open>
  Claim C10. With the same \<open>K\<close>, \<open>L\<close> and density, and the objective of
  \<open>lyndon\<close> being the cost function of the legacy module, \<open>find_codes_lyndon\<close>
  and \<open>lyndon\<close> rate the same codes in the same order, end with the same best
  scores and counts for every length (or raise the same exception in the same state),
  and persist the same codes and scores at the same steps: one into a file per length,
  the other through \<open>update\<close>.
\<close>

theorem find_codes_lyndon_agrees_with_lyndon:
  "lyndon_outcome (find_codes_lyndon K L output_dir density cost_function f32 words) =
   lyndon_outcome
     (lyndon K L \<lparr>obj_name = name, obj_code = cost_function, obj_batch = on_batch\<rparr> density f32 words)"
proof -
  let ?R = "\<lambda>s t. lyndon_stats s = lyndon_stats t"
  have rel: "rel_sum (rel_prod (=) ?R) ?R a b \<Longrightarrow> lyndon_outcome a = lyndon_outcome b" for a b
    by (auto simp: lyndon_outcome_def elim!: rel_sum.cases)
  show ?thesis
  proof (rule rel)
    show "rel_sum (rel_prod (=) ?R) ?R
       (find_codes_lyndon K L output_dir density cost_function f32 words)
       (lyndon K L \<lparr>obj_name = name, obj_code = cost_function, obj_batch = on_batch\<rparr> density f32 words)"
      unfolding find_codes_lyndon_def lyndon_def
      by (auto intro!: for_each_rel lyndon_candidate_stats)
  qed
qed

lemma length_num_allowed_ones [simp]: "length (num_allowed_ones L density) = nat (L + 1)"
  by (simp add: num_allowed_ones_def)





section \<open>Monotonicity of the best score and of the count\<close>

lemma searched_append [simp]: "searched (xs @ ys) = searched xs + searched ys"
  by (induction xs rule: searched.induct) auto

lemma bfs_batch_monotone:
  assumes "indices \<noteq> []"
  shows "bfs_score_best st \<le> bfs_score_best (bfs_batch L filename rate indices st) \<and>
         bfs_num_searched_codes st < bfs_num_searched_codes (bfs_batch L filename rate indices st)"
  using assms by (auto simp: bfs_batch_def Let_def)

lemma score_batch_monotone:
  assumes "score_batch objective_function batch c s = Inr (c', s')"
  shows "s \<le> s'"
  using assms by (auto simp: score_batch_def Let_def split: if_splits)

lemma score_batch_nonempty:
  assumes "score_batch objective_function batch c s = Inr (c', s')"
    and "length (obj_batch objective_function batch) = length batch"
  shows "batch \<noteq> []"
  using assms by (auto simp: score_batch_def Let_def split: if_splits)

lemma bracelet_batch_monotone:
  assumes "bracelet_batch objective_function batch_size st = Inr st'"
    and "\<forall>b. length (obj_batch objective_function b) = length b"
  shows "br_score_best st \<le> br_score_best st' \<and> searched (br_log st) < searched (br_log st')"
proof -
  let ?i = "slice_start (length (br_codes st)) (- batch_size)"
  let ?batch = "drop ?i (br_codes st)"
  from assms(1) obtain c s where
    sb: "score_batch objective_function ?batch (br_code_best st) (br_score_best st) = Inr (c, s)"
    and st': "st' = st\<lparr>br_codes := take ?i (br_codes st), br_log := br_log st @ [Objective ?batch],
                 br_code_best := c, br_score_best := s\<rparr>"
    by (auto simp: bracelet_batch_def Let_def split: sum.splits)
  have "br_score_best st \<le> s" using sb by (rule score_batch_monotone)
  moreover have "?batch \<noteq> []" using sb assms(2) by (intro score_batch_nonempty) auto
  ultimately show ?thesis unfolding st' by simp
qed

lemma necklace_batch_monotone:
  assumes "necklace_batch objective_function st = Inr st'"
    and "\<forall>b. length (obj_batch objective_function b) = length b"
  shows "nk_score_best st \<le> nk_score_best st' \<and> searched (nk_log st) < searched (nk_log st')"
proof -
  from assms(1) obtain batch rest c s where
    ch: "nk_chunks st = Inr batch # rest"
    and sb: "score_batch objective_function batch (nk_code_best st) (nk_score_best st) = Inr (c, s)"
    and st': "st' = st\<lparr>nk_chunks := rest, nk_log := nk_log st @ [Objective batch],
                 nk_code_best := c, nk_score_best := s\<rparr>"
    by (auto simp: necklace_batch_def Let_def split: sum.splits list.splits)
  have "nk_score_best st \<le> s" using sb by (rule score_batch_monotone)
  moreover have "batch \<noteq> []" using sb assms(2) by (intro score_batch_nonempty) auto
  ultimately show ?thesis unfolding st' by simp
qed

lemma rounded_le:
  assumes "mono f32" "rounded f32 st" "n < length (ly_score_best st)" "ly_score_best st ! n < Some s"
  shows "ly_score_best st ! n \<le> Some (f32 s)"
proof (cases "ly_score_best st ! n")
  case None
  then show ?thesis by simp
next
  case (Some b)
  with assms(4) have "b < s" by simp
  then have "f32 b \<le> f32 s" using assms(1) by (simp add: monoD)
  moreover have "f32 b = b"
    using assms(2,3) Some unfolding rounded_def list_all_length by (auto split: option.splits)
  ultimately show ?thesis using Some by simp
qed

lemma lyndon_candidate_monotone:
  assumes "lyndon_candidate K objective_function f32 allowed st w = Inr st'"
    and "mono f32" "\<forall>x. f32 (f32 x) = f32 x" "rounded f32 st"
    and "length (ly_num_searched_codes st) = length allowed"
    and "length (ly_score_best st) = length allowed"
  shows "rounded f32 st' \<and>
         (\<forall>n. ly_score_best st ! n \<le> ly_score_best st' ! n) \<and>
         (if K \<le> int (length w) \<and> sum_list w = allowed ! length w
          then ly_num_searched_codes st' ! length w = ly_num_searched_codes st ! length w + 1
          else st' = st)"
proof (cases "K \<le> int (length w) \<and> sum_list w = allowed ! length w")
  case False
  with assms(1) have "st' = st"
    by (auto simp: lyndon_candidate_def Let_def split: if_splits)
  with assms(4) False show ?thesis by simp
next
  case True
  let ?n = "length w"
  let ?s = "obj_code objective_function w"
  from True assms(1) have n: "?n < length allowed"
    by (auto simp: lyndon_candidate_def Let_def split: if_splits)
  show ?thesis
  proof (cases "ly_score_best st ! ?n < Some ?s")
    case F: False
    with True n assms(1) have st': "st' = st\<lparr>ly_num_searched_codes :=
           (ly_num_searched_codes st)[?n := ly_num_searched_codes st ! ?n + 1],
         ly_log := ly_log st @ [Objective [w]]\<rparr>"
      by (auto simp: lyndon_candidate_def Let_def split: if_splits)
    show ?thesis using True n assms(4,5) unfolding st' by (simp add: rounded_def)
  next
    case T: True
    have le: "ly_score_best st ! ?n \<le> Some (f32 ?s)"
      using assms(2,4) n T assms(6) by (intro rounded_le) auto
    from T True n assms(1) have sb: "ly_score_best st' = (ly_score_best st)[?n := Some (f32 ?s)]"
      and cnt: "ly_num_searched_codes st' =
           (ly_num_searched_codes st)[?n := ly_num_searched_codes st ! ?n + 1]"
      by (auto simp: lyndon_candidate_def Let_def split: if_splits)
    have "rounded f32 st'"
      unfolding rounded_def sb list_all_length
    proof (intro allI impI)
      fix m assume m: "m < length ((ly_score_best st)[?n := Some (f32 ?s)])"
      show "case (ly_score_best st)[?n := Some (f32 ?s)] ! m of None \<Rightarrow> True
            | Some x \<Rightarrow> f32 x = x"
      proof (cases "m = ?n")
        case True
        with m assms(3) show ?thesis by simp
      next
        case False
        with m assms(4) show ?thesis by (simp add: rounded_def list_all_length)
      qed
    qed
    moreover have "\<forall>m. ly_score_best st ! m \<le> ly_score_best st' ! m"
    proof
      fix m
      show "ly_score_best st ! m \<le> ly_score_best st' ! m"
      proof (cases "m = ?n")
        case True
        with le n assms(6) show ?thesis unfolding sb by simp
      next
        case False
        then show ?thesis unfolding sb by simp
      qed
    qed
    moreover have "ly_num_searched_codes st' ! ?n = ly_num_searched_codes st ! ?n + 1"
      unfolding cnt using n assms(5) by simp
    ultimately show ?thesis using True by simp
  qed
qed

text \<open>
  Claim C7. Within the search of one length, in every driver the best score recorded
  does not decrease over a rated batch (over a rated candidate in the Lyndon driver), and
  the count of searched codes strictly increases with every batch or candidate
  processed. \<open>bfs\<close> and \<open>lyndon\<close> keep that count in
  \<open>num_searched_codes\<close>; \<open>bracelet\<close> and \<open>necklace\<close> keep no such variable,
  and for them the count is the number of codes passed to the objective. The rounding to
  \<open>float32\<close> is monotone and leaves a rounded value as it is, and the objective
  returns one score for each code of a batch.
\<close>

theorem best_score_and_count_monotone:
  assumes "mono f32" "\<forall>x. f32 (f32 x) = f32 x"
    and "\<forall>b. length (obj_batch objective_function b) = length b"
  shows
    "(indices \<noteq> [] \<longrightarrow>
        bfs_score_best sb \<le> bfs_score_best (bfs_batch L filename rate indices sb) \<and>
        bfs_num_searched_codes sb < bfs_num_searched_codes (bfs_batch L filename rate indices sb)) \<and>
     (lyndon_candidate K objective_function f32 allowed sl w = Inr sl' \<and> rounded f32 sl \<and>
      length (ly_num_searched_codes sl) = length allowed \<and>
      length (ly_score_best sl) = length allowed \<longrightarrow>
        rounded f32 sl' \<and>
        (\<forall>n. ly_score_best sl ! n \<le> ly_score_best sl' ! n) \<and>
        (if K \<le> int (length w) \<and> sum_list w = allowed ! length w
         then ly_num_searched_codes sl' ! length w = ly_num_searched_codes sl ! length w + 1
         else sl' = sl)) \<and>
     (bracelet_batch objective_function batch_size sr = Inr sr' \<longrightarrow>
        br_score_best sr \<le> br_score_best sr' \<and> searched (br_log sr) < searched (br_log sr')) \<and>
     (necklace_batch objective_function sn = Inr sn' \<longrightarrow>
        nk_score_best sn \<le> nk_score_best sn' \<and> searched (nk_log sn) < searched (nk_log sn'))"
proof (intro conjI impI)
  assume "indices \<noteq> []"
  then show "bfs_score_best sb \<le> bfs_score_best (bfs_batch L filename rate indices sb)"
    and "bfs_num_searched_codes sb < bfs_num_searched_codes (bfs_batch L filename rate indices sb)"
    using bfs_batch_monotone[of indices sb L filename rate] by simp_all
next
  assume a: "lyndon_candidate K objective_function f32 allowed sl w = Inr sl' \<and> rounded f32 sl \<and>
      length (ly_num_searched_codes sl) = length allowed \<and>
      length (ly_score_best sl) = length allowed"
  then have "rounded f32 sl' \<and>
        (\<forall>n. ly_score_best sl ! n \<le> ly_score_best sl' ! n) \<and>
        (if K \<le> int (length w) \<and> sum_list w = allowed ! length w
         then ly_num_searched_codes sl' ! length w = ly_num_searched_codes sl ! length w + 1
         else sl' = sl)"
    using assms(1,2) by (intro lyndon_candidate_monotone) auto
  then show "rounded f32 sl'" "\<forall>n. ly_score_best sl ! n \<le> ly_score_best sl' ! n"
    "if K \<le> int (length w) \<and> sum_list w = allowed ! length w
         then ly_num_searched_codes sl' ! length w = ly_num_searched_codes sl ! length w + 1
         else sl' = sl" by simp_all
next
  assume "bracelet_batch objective_function batch_size sr = Inr sr'"
  then show "br_score_best sr \<le> br_score_best sr'" "searched (br_log sr) < searched (br_log sr')"
    using bracelet_batch_monotone[OF _ assms(3)] by simp_all
next
  assume "necklace_batch objective_function sn = Inr sn'"
  then show "nk_score_best sn \<le> nk_score_best sn'" "searched (nk_log sn) < searched (nk_log sn')"
    using necklace_batch_monotone[OF _ assms(3)] by simp_all
qed

theorem best_score_and_count_monotone_witness:
  "bfs_score_best example_bfs_state
     \<le> bfs_score_best (bfs_batch 3 None (\<lambda>c. of_int (c ! 2)) [[0, 2], [1, 2]] example_bfs_state) \<and>
   bfs_num_searched_codes example_bfs_state
     < bfs_num_searched_codes (bfs_batch 3 None (\<lambda>c. of_int (c ! 2)) [[0, 2], [1, 2]] example_bfs_state) \<and>
   (\<exists>sl'. lyndon_candidate 2 example_objective (\<lambda>x. x) (num_allowed_ones 4 (1/2))
             (lyndon_init 4) [0, 0, 1, 1] = Inr sl' \<and>
      rounded (\<lambda>x. x) sl' \<and>
      (\<forall>n. ly_score_best (lyndon_init 4) ! n \<le> ly_score_best sl' ! n) \<and>
      ly_num_searched_codes sl' ! 4 = ly_num_searched_codes (lyndon_init 4) ! 4 + 1) \<and>
   (\<exists>sr'. bracelet_batch example_objective 2 example_bracelet_state = Inr sr' \<and>
      br_score_best example_bracelet_state \<le> br_score_best sr' \<and>
      searched (br_log example_bracelet_state) < searched (br_log sr')) \<and>
   (\<exists>sn'. necklace_batch example_objective example_necklace_state = Inr sn' \<and>
      nk_score_best example_necklace_state \<le> nk_score_best sn' \<and>
      searched (nk_log example_necklace_state) < searched (nk_log sn'))"
proof -
  have m: "mono (\<lambda>x::real. x)" by (simp add: mono_def)
  have i: "\<forall>x::real. (\<lambda>x. x) ((\<lambda>x. x) x) = (\<lambda>x. x) x" by simp
  have l: "\<forall>b. length (obj_batch example_objective b) = length b"
    by (simp add: example_objective_def)
  obtain sl' where sl: "lyndon_candidate 2 example_objective (\<lambda>x. x) (num_allowed_ones 4 (1/2))
             (lyndon_init 4) [0, 0, 1, 1] = Inr sl'"
    by (simp add: lyndon_candidate_def num_allowed_ones_def lyndon_init_def Let_def py_int_def
        example_objective_def eval_nat_numeral)
  obtain sr' where sr: "bracelet_batch example_objective 2 example_bracelet_state = Inr sr'"
    by (simp add: bracelet_batch_def score_batch_def slice_start_def example_bracelet_state_def
        example_objective_def Let_def)
  obtain sn' where sn: "necklace_batch example_objective example_necklace_state = Inr sn'"
    by (simp add: necklace_batch_def score_batch_def example_necklace_state_def
        example_objective_def Let_def)
  have r: "rounded (\<lambda>x. x) (lyndon_init 4)" by (simp add: rounded_def lyndon_init_def list_all_length)
  have ls: "length (ly_num_searched_codes (lyndon_init 4)) = length (num_allowed_ones 4 (1/2))"
    "length (ly_score_best (lyndon_init 4)) = length (num_allowed_ones 4 (1/2))"
    by (simp_all add: lyndon_init_def)
  have f: "2 \<le> int 4 \<and> sum_list [0, 0, 1, 1::int] = num_allowed_ones 4 (1/2) ! 4"
    by (simp add: num_allowed_ones_def py_int_def eval_nat_numeral)
  have ne: "[[0, 2], [1, 2::nat]] \<noteq> []" by simp
  note t = best_score_and_count_monotone[OF m i l, of "[[0, 2], [1, 2]]" example_bfs_state 3 None
      "\<lambda>c. of_int (c ! 2)" 2 "num_allowed_ones 4 (1/2)" "lyndon_init 4" "[0, 0, 1, 1]" sl'
      2 example_bracelet_state sr' example_necklace_state sn']
  from t have t1: "bfs_score_best example_bfs_state
     \<le> bfs_score_best (bfs_batch 3 None (\<lambda>c. of_int (c ! 2)) [[0, 2], [1, 2]] example_bfs_state) \<and>
   bfs_num_searched_codes example_bfs_state
     < bfs_num_searched_codes (bfs_batch 3 None (\<lambda>c. of_int (c ! 2)) [[0, 2], [1, 2]] example_bfs_state)"
    using ne by blast
  have n4: "length [0, 0, 1, 1::int] = 4" by simp
  note tl = t[THEN conjunct2, THEN conjunct1, rule_format,
      OF conjI[OF sl conjI[OF r conjI[OF ls(1) ls(2)]]], unfolded n4 if_P[OF f]]
  have t2: "rounded (\<lambda>x. x) sl' \<and>
      (\<forall>n. ly_score_best (lyndon_init 4) ! n \<le> ly_score_best sl' ! n) \<and>
      ly_num_searched_codes sl' ! 4 = ly_num_searched_codes (lyndon_init 4) ! 4 + 1"
    by (rule tl)
  from t sr have t3: "br_score_best example_bracelet_state \<le> br_score_best sr' \<and>
      searched (br_log example_bracelet_state) < searched (br_log sr')" by blast
  from t sn have t4: "nk_score_best example_necklace_state \<le> nk_score_best sn' \<and>
      searched (nk_log example_necklace_state) < searched (nk_log sn')" by blast
  from t1 t2 t3 t4 sl sr sn show ?thesis by blast
qed

section \<open>The calls of \<open>update\<close>\<close>

lemma for_each_invariant:
  assumes "P st"
    and "\<And>s x. P s \<Longrightarrow> x \<in> set xs \<Longrightarrow> P (final (body s x))"
  shows "P (final (for_each body st xs))"
  using assms
proof (induction xs arbitrary: st)
  case Nil
  then show ?case by (simp add: final_def)
next
  case (Cons x xs)
  have p: "P (final (body st x))" using Cons.prems by simp
  show ?case
  proof (cases "body st x")
    case (Inl a)
    with p show ?thesis by simp
  next
    case (Inr s')
    with p have "P s'" by (simp add: final_def)
    then have "P (final (for_each body s' xs))" using Cons.prems(2) by (intro Cons.IH) auto
    with Inr show ?thesis by simp
  qed
qed

lemma final_simps [simp]: "final (Inl (e, s)) = s" "final (Inr s) = s"
  by (simp_all add: final_def)

lemma bracelet_batch_log:
  "\<exists>batch. br_log (final (bracelet_batch objective_function batch_size s)) =
     br_log s @ [Objective batch]"
  by (auto simp: bracelet_batch_def Let_def split: sum.splits)

lemma necklace_batch_log:
  "\<exists>batches. nk_log (final (necklace_batch objective_function s)) =
     nk_log s @ map Objective batches"
proof (cases "nk_chunks s")
  case Nil
  then have "nk_log (final (necklace_batch objective_function s)) = nk_log s @ map Objective []"
    by (simp add: necklace_batch_def)
  then show ?thesis by blast
next
  case (Cons c rest)
  show ?thesis
  proof (cases c)
    case (Inl e)
    with Cons have "nk_log (final (necklace_batch objective_function s)) = nk_log s @ map Objective []"
      by (simp add: necklace_batch_def)
    then show ?thesis by blast
  next
    case (Inr batch)
    with Cons have "nk_log (final (necklace_batch objective_function s)) =
        nk_log s @ map Objective [batch]"
      by (auto simp: necklace_batch_def Let_def split: sum.splits)
    then show ?thesis by blast
  qed
qed

lemma bracelet_loop_log:
  "\<exists>batches. br_log (final (for_each (\<lambda>st _. bracelet_batch objective_function batch_size st) s xs)) =
     br_log s @ map Objective batches"
proof (rule for_each_invariant[where P = "\<lambda>t. \<exists>batches. br_log t = br_log s @ map Objective batches"])
  show "\<exists>batches. br_log s = br_log s @ map Objective batches" by (rule exI[of _ "[]"]) simp
next
  fix t :: bracelet_state and x :: nat
  assume "\<exists>batches. br_log t = br_log s @ map Objective batches"
  then obtain bs where bs: "br_log t = br_log s @ map Objective bs" by blast
  obtain b where "br_log (final (bracelet_batch objective_function batch_size t)) =
     br_log t @ [Objective b]" using bracelet_batch_log by blast
  with bs have "br_log (final (bracelet_batch objective_function batch_size t)) =
     br_log s @ map Objective (bs @ [b])" by simp
  then show "\<exists>batches. br_log (final (bracelet_batch objective_function batch_size t)) =
     br_log s @ map Objective batches" by blast
qed

lemma necklace_loop_log:
  "\<exists>batches. nk_log (final (for_each (\<lambda>st _. necklace_batch objective_function st) s xs)) =
     nk_log s @ map Objective batches"
proof (rule for_each_invariant[where P = "\<lambda>t. \<exists>batches. nk_log t = nk_log s @ map Objective batches"])
  show "\<exists>batches. nk_log s = nk_log s @ map Objective batches" by (rule exI[of _ "[]"]) simp
next
  fix t :: necklace_state and x :: nat
  assume "\<exists>batches. nk_log t = nk_log s @ map Objective batches"
  then obtain bs where bs: "nk_log t = nk_log s @ map Objective bs" by blast
  obtain b where "nk_log (final (necklace_batch objective_function t)) =
     nk_log t @ map Objective b" using necklace_batch_log by blast
  with bs have "nk_log (final (necklace_batch objective_function t)) =
     nk_log s @ map Objective (bs @ b)" by simp
  then show "\<exists>batches. nk_log (final (necklace_batch objective_function t)) =
     nk_log s @ map Objective batches" by blast
qed

lemma bracelet_length_log:
  "(\<exists>e batches. bracelet_length objective_function density batch_size bracelet_fc evs n =
        Inl (e, evs @ map Objective batches)) \<or>
   (\<exists>batches c s. bracelet_length objective_function density batch_size bracelet_fc evs n =
        Inr (evs @ map Objective batches @
          [Update \<lparr>arg_objective_name = obj_name objective_function, arg_code = c, arg_score = s,
                   arg_weight = py_int (of_int n * density), arg_searched_count = None\<rparr>]))"
proof (cases "batch_size = 0")
  case True
  then have "bracelet_length objective_function density batch_size bracelet_fc evs n =
        Inl (ZeroDivisionError, evs @ map Objective [])" by (simp add: bracelet_length_def Let_def)
  then show ?thesis by blast
next
  case False
  let ?k = "py_int (of_int n * density)"
  let ?codes = "bracelet_fc n 2 [n - ?k, ?k]"
  let ?init = "\<lparr>br_codes = ?codes, br_code_best = None, br_score_best = None, br_log = evs\<rparr>"
  let ?r = "for_each (\<lambda>st _. bracelet_batch objective_function batch_size st) ?init
              [0..<nat (int (length ?codes) div batch_size + 1)]"
  obtain bs where bs: "br_log (final ?r) = evs @ map Objective bs"
    using bracelet_loop_log[of objective_function batch_size ?init] by auto
  show ?thesis
  proof (cases ?r)
    case (Inl a)
    then obtain e st where a: "a = (e, st)" by (cases a)
    with Inl bs False have "bracelet_length objective_function density batch_size bracelet_fc evs n =
        Inl (e, evs @ map Objective bs)" by (simp add: bracelet_length_def Let_def)
    then show ?thesis by blast
  next
    case (Inr st)
    with bs False have "bracelet_length objective_function density batch_size bracelet_fc evs n =
        Inr (evs @ map Objective bs @
          [Update \<lparr>arg_objective_name = obj_name objective_function, arg_code = br_code_best st,
                   arg_score = br_score_best st,
                   arg_weight = ?k, arg_searched_count = None\<rparr>])"
      by (simp add: bracelet_length_def Let_def)
    then show ?thesis by blast
  qed
qed

lemma necklace_length_log:
  "(\<exists>e batches. necklace_length objective_function density batch_size Necklaces evs n =
        Inl (e, evs @ map Objective batches)) \<or>
   (\<exists>batches c s. necklace_length objective_function density batch_size Necklaces evs n =
        Inr (evs @ map Objective batches @
          [Update \<lparr>arg_objective_name = obj_name objective_function, arg_code = c, arg_score = s,
                   arg_weight = py_int (of_int n * density), arg_searched_count = None\<rparr>]))"
proof (cases "batch_size = 0")
  case True
  then have "necklace_length objective_function density batch_size Necklaces evs n =
        Inl (ZeroDivisionError, evs @ map Objective [])" by (simp add: necklace_length_def Let_def)
  then show ?thesis by blast
next
  case False
  let ?k = "py_int (of_int n * density)"
  let ?codes = "Necklaces [n - ?k, ?k]"
  let ?init = "\<lparr>nk_chunks = necklace_chunk ?codes (batch_size, n), nk_code_best = None,
                 nk_score_best = None, nk_log = evs\<rparr>"
  let ?r = "for_each (\<lambda>st _. necklace_batch objective_function st) ?init
              [0..<nat (int (length ?codes) div batch_size + 1)]"
  obtain bs where bs: "nk_log (final ?r) = evs @ map Objective bs"
    using necklace_loop_log[of objective_function ?init] by auto
  show ?thesis
  proof (cases ?r)
    case (Inl a)
    then obtain e st where a: "a = (e, st)" by (cases a)
    with Inl bs False have "necklace_length objective_function density batch_size Necklaces evs n =
        Inl (e, evs @ map Objective bs)" by (simp add: necklace_length_def Let_def)
    then show ?thesis by blast
  next
    case (Inr st)
    with bs False have "necklace_length objective_function density batch_size Necklaces evs n =
        Inr (evs @ map Objective bs @
          [Update \<lparr>arg_objective_name = obj_name objective_function, arg_code = nk_code_best st,
                   arg_score = nk_score_best st,
                   arg_weight = ?k, arg_searched_count = None\<rparr>])"
      by (simp add: necklace_length_def Let_def)
    then show ?thesis by blast
  qed
qed

text \<open>
  Claim C1 as stated does not hold for \<open>bracelet\<close>: with three codes of length 6
  and \<open>batch_size = 2\<close> the best score improves at the first batch (to 0) and again
  at the second (to 1), neither batch step calls \<open>update\<close>, and the only call comes
  after the second batch.
\<close>

theorem bracelet_update_deferred_counterexample:
  "bracelet_batch example_objective 2 example_bracelet_state =
     Inr \<lparr>br_codes = [[0, 1, 0, 1, 0, 1]],
          br_code_best = Some [0, 0, 1, 0, 1, 1],
          br_score_best = Some 0,
          br_log = [Objective [[0, 0, 1, 0, 1, 1], [0, 0, 0, 1, 1, 1]]]\<rparr> \<and>
   bracelet_batch example_objective 2
       \<lparr>br_codes = [[0, 1, 0, 1, 0, 1]],
        br_code_best = Some [0, 0, 1, 0, 1, 1],
        br_score_best = Some 0,
        br_log = [Objective [[0, 0, 1, 0, 1, 1], [0, 0, 0, 1, 1, 1]]]\<rparr> =
     Inr \<lparr>br_codes = [],
          br_code_best = Some [0, 1, 0, 1, 0, 1],
          br_score_best = Some 1,
          br_log = [Objective [[0, 0, 1, 0, 1, 1], [0, 0, 0, 1, 1, 1]], Objective [[0, 1, 0, 1, 0, 1]]]\<rparr> \<and>
   bracelet 6 6 example_objective (1/2) 2 example_bracelet_fc =
     Inr [Objective [[0, 0, 1, 0, 1, 1], [0, 0, 0, 1, 1, 1]],
          Objective [[0, 1, 0, 1, 0, 1]],
          Update \<lparr>arg_objective_name = ''second_entry'',
                  arg_code = Some [0, 1, 0, 1, 0, 1],
                  arg_score = Some 1,
                  arg_weight = 3,
                  arg_searched_count = None\<rparr>]"
  by code_simp

text \<open>
  Claim C1, amended. \<open>lyndon\<close> calls \<open>update\<close> at the candidate step at which a
  strict improvement of that length's best score is observed, right after rating the
  candidate. \<open>bracelet\<close> and \<open>necklace\<close> call \<open>update\<close> once for a length,
  after the batch loop of that length has come to its end: a length that returns adds
  to the log calls of the objective followed by one call of \<open>update\<close>.
\<close>

theorem update_at_improvement_or_after_length:
  "(K \<le> int (length w) \<and> length w < length allowed \<and> sum_list w = allowed ! length w \<and>
    ly_score_best st ! length w < Some (obj_code objective_function w) \<longrightarrow>
      (\<exists>st'. lyndon_candidate K objective_function f32 allowed st w = Inr st' \<and>
         ly_log st' = ly_log st @
           [Objective [w],
            Update \<lparr>arg_objective_name = obj_name objective_function, arg_code = Some w,
                    arg_score = Some (obj_code objective_function w),
                    arg_weight = allowed ! length w, arg_searched_count = None\<rparr>])) \<and>
   (bracelet_length objective_function density batch_size bracelet_fc evs n = Inr evs' \<longrightarrow>
      (\<exists>batches u. evs' = evs @ map Objective batches @ [Update u])) \<and>
   (necklace_length objective_function density batch_size Necklaces evs n = Inr evs' \<longrightarrow>
      (\<exists>batches u. evs' = evs @ map Objective batches @ [Update u]))"
proof (intro conjI impI)
  assume "K \<le> int (length w) \<and> length w < length allowed \<and> sum_list w = allowed ! length w \<and>
    ly_score_best st ! length w < Some (obj_code objective_function w)"
  then show "\<exists>st'. lyndon_candidate K objective_function f32 allowed st w = Inr st' \<and>
         ly_log st' = ly_log st @
           [Objective [w],
            Update \<lparr>arg_objective_name = obj_name objective_function, arg_code = Some w,
                    arg_score = Some (obj_code objective_function w),
                    arg_weight = allowed ! length w, arg_searched_count = None\<rparr>]"
    by (simp add: lyndon_candidate_def Let_def)
next
  assume "bracelet_length objective_function density batch_size bracelet_fc evs n = Inr evs'"
  with bracelet_length_log[of objective_function density batch_size bracelet_fc evs n]
  show "\<exists>batches u. evs' = evs @ map Objective batches @ [Update u]" by auto
next
  assume "necklace_length objective_function density batch_size Necklaces evs n = Inr evs'"
  with necklace_length_log[of objective_function density batch_size Necklaces evs n]
  show "\<exists>batches u. evs' = evs @ map Objective batches @ [Update u]" by auto
qed

theorem update_at_improvement_or_after_length_witness:
  "(\<exists>st'. lyndon_candidate 2 example_objective (\<lambda>x. x) (num_allowed_ones 4 (1/2))
            (lyndon_init 4) [0, 0, 1, 1] = Inr st' \<and>
      ly_log st' = ly_log (lyndon_init 4) @
        [Objective [[0, 0, 1, 1]],
         Update \<lparr>arg_objective_name = obj_name example_objective, arg_code = Some [0, 0, 1, 1],
                 arg_score = Some (obj_code example_objective [0, 0, 1, 1]),
                 arg_weight = num_allowed_ones 4 (1/2) ! 4, arg_searched_count = None\<rparr>]) \<and>
   (\<exists>evs' batches u.
      bracelet_length example_objective (1/2) 2 example_bracelet_fc [] 6 = Inr evs' \<and>
      evs' = [] @ map Objective batches @ [Update u]) \<and>
   (\<exists>evs' batches u.
      necklace_length example_objective (1/2) 3 example_Necklaces [] 4 = Inr evs' \<and>
      evs' = [] @ map Objective batches @ [Update u])"
proof -
  have n4: "length [0, 0, 1, 1::int] = 4" by simp
  have p: "2 \<le> int 4 \<and> 4 < length (num_allowed_ones 4 (1/2)) \<and>
      sum_list [0, 0, 1, 1::int] = num_allowed_ones 4 (1/2) ! 4 \<and>
      ly_score_best (lyndon_init 4) ! 4 < Some (obj_code example_objective [0, 0, 1, 1])"
    by (simp add: num_allowed_ones_def py_int_def lyndon_init_def eval_nat_numeral)
  have b: "bracelet_length example_objective (1/2) 2 example_bracelet_fc [] 6 =
      Inr [Objective [[0, 0, 1, 0, 1, 1], [0, 0, 0, 1, 1, 1]],
           Objective [[0, 1, 0, 1, 0, 1]],
           Update \<lparr>arg_objective_name = ''second_entry'',
                   arg_code = Some [0, 1, 0, 1, 0, 1],
                   arg_score = Some 1,
                   arg_weight = 3,
                   arg_searched_count = None\<rparr>]"
    by code_simp
  have k: "necklace_length example_objective (1/2) 3 example_Necklaces [] 4 =
      Inr [Objective [[0, 0, 1, 1], [0, 1, 0, 1]],
           Update \<lparr>arg_objective_name = ''second_entry'',
                   arg_code = Some [0, 1, 0, 1],
                   arg_score = Some 1,
                   arg_weight = 2,
                   arg_searched_count = None\<rparr>]"
    by code_simp
  note t1 = update_at_improvement_or_after_length[where K = 2 and w = "[0, 0, 1, 1]"
      and allowed = "num_allowed_ones 4 (1/2)" and st = "lyndon_init 4"
      and objective_function = example_objective and ?f32.0 = "\<lambda>x. x",
      unfolded n4, THEN conjunct1, rule_format, OF p]
  note t2 = update_at_improvement_or_after_length[where objective_function = example_objective
      and density = "1/2" and batch_size = 2 and bracelet_fc = example_bracelet_fc
      and evs = "[]" and n = 6,
      THEN conjunct2, THEN conjunct1, rule_format, OF b]
  note t3 = update_at_improvement_or_after_length[where objective_function = example_objective
      and density = "1/2" and batch_size = 3 and Necklaces = example_Necklaces
      and evs = "[]" and n = 4,
      THEN conjunct2, THEN conjunct2, rule_format, OF k]
  from t1 t2 t3 b k show ?thesis by blast
qed



section \<open>Configurations outside the expected ranges\<close>

text \<open>
  Claim C3 as stated does not hold: with the density 1, outside \<open>(0, 1)\<close>, \<open>bfs\<close>
  does not fail; it rates the code of weight \<open>L\<close>, writes the file and returns.
\<close>

theorem bfs_density_one_counterexample:
  "bfs 2 1 4 (Some ''best.txt'') (\<lambda>c. 0) =
     Inr \<lparr>bfs_code_generator = [],
          bfs_code_best = Some [1, 1],
          bfs_score_best = Some 0,
          bfs_num_searched_codes = 1,
          bfs_log = [Write_file (Path ''best.txt'')
                       \<lparr>txt_count = 1, txt_code = [1, 1], txt_score = None\<rparr>]\<rparr>"
  by code_simp

lemma lyndon_candidate_no_range:
  assumes "L < K" "ly_log s = []"
  shows "ly_log (final (lyndon_candidate K objective_function f32 (num_allowed_ones L density) s w)) = []"
proof (cases "int (length w) < K")
  case True
  with assms(2) show ?thesis by (simp add: lyndon_candidate_def Let_def)
next
  case False
  with assms(1) have "nat (L + 1) \<le> length w" by linarith
  with False assms(2) show ?thesis by (simp add: lyndon_candidate_def Let_def)
qed

text \<open>
  Claim C3, amended. The drivers do not validate their configuration. With \<open>K > L\<close>
  the drivers over a range of lengths rate no code and never call \<open>update\<close>
  (\<open>bracelet\<close> and \<open>necklace\<close> return at once; \<open>lyndon\<close> passes over the
  generated words or raises). With \<open>batch_size = 0\<close> and \<open>K \<le> L\<close>,
  \<open>bracelet\<close> and \<open>necklace\<close> raise \<open>ZeroDivisionError\<close> before any code is
  rated or \<open>update\<close> is called. \<open>bfs\<close> raises \<open>ValueError\<close> before it
  enumerates when \<open>int(L * density)\<close> is negative or greater than \<open>L\<close>.
\<close>

theorem no_validation_of_configuration:
  "(L < K \<longrightarrow>
      ly_log (final (lyndon K L objective_function density f32 words)) = [] \<and>
      bracelet K L objective_function density batch_size bracelet_fc = Inr [] \<and>
      necklace K L objective_function density batch_size Necklaces = Inr []) \<and>
   (K \<le> L \<and> batch_size = 0 \<longrightarrow>
      bracelet K L objective_function density batch_size bracelet_fc = Inl (ZeroDivisionError, []) \<and>
      necklace K L objective_function density batch_size Necklaces = Inl (ZeroDivisionError, [])) \<and>
   (py_int (of_int M * density) < 0 \<or> M < py_int (of_int M * density) \<longrightarrow>
      bfs M density batch_size filename rate = Inl ValueError)"
proof (intro conjI impI)
  assume kl: "L < K"
  have "ly_log (final (for_each (lyndon_candidate K objective_function f32 (num_allowed_ones L density))
             (lyndon_init L) ws)) = []" for ws
    by (rule for_each_invariant[where P = "\<lambda>s::lyndon_state. ly_log s = []"])
       (simp_all add: lyndon_init_def lyndon_candidate_no_range[OF kl])
  then show "ly_log (final (lyndon K L objective_function density f32 words)) = []"
    by (simp add: lyndon_def lyndon_init_def)
  from kl show "bracelet K L objective_function density batch_size bracelet_fc = Inr []"
    by (simp add: bracelet_def)
  from kl show "necklace K L objective_function density batch_size Necklaces = Inr []"
    by (simp add: necklace_def)
next
  assume a: "K \<le> L \<and> batch_size = 0"
  then have u: "[K..L] = K # [K + 1..L]" by (simp add: upto_rec1)
  from a show "bracelet K L objective_function density batch_size bracelet_fc = Inl (ZeroDivisionError, [])"
    unfolding bracelet_def u by (simp add: bracelet_length_def Let_def)
  from a show "necklace K L objective_function density batch_size Necklaces = Inl (ZeroDivisionError, [])"
    unfolding necklace_def u by (simp add: necklace_length_def Let_def)
next
  assume "py_int (of_int M * density) < 0 \<or> M < py_int (of_int M * density)"
  then show "bfs M density batch_size filename rate = Inl ValueError"
    by (auto simp: bfs_def Let_def)
qed

theorem no_validation_of_configuration_witness:
  "ly_log (final (lyndon 5 4 example_objective (1/2) (\<lambda>x. x) example_words)) = [] \<and>
   bracelet 5 4 example_objective (1/2) 2 example_bracelet_fc = Inr [] \<and>
   necklace 5 4 example_objective (1/2) 2 example_Necklaces = Inr [] \<and>
   bracelet 4 4 example_objective (1/2) 0 example_bracelet_fc = Inl (ZeroDivisionError, []) \<and>
   necklace 4 4 example_objective (1/2) 0 example_Necklaces = Inl (ZeroDivisionError, []) \<and>
   bfs 4 (3/2) 8 None (\<lambda>c. 0) = Inl ValueError \<and>
   bfs 4 (- 1/2) 8 None (\<lambda>c. 0) = Inl ValueError"
proof -
  have h1: "(4::int) < 5" by simp
  have h2: "(4::int) \<le> 4 \<and> (0::int) = 0" by simp
  have h3: "py_int (of_int 4 * (3/2)) < 0 \<or> 4 < py_int (of_int 4 * (3/2))"
    by (simp add: py_int_def)
  have h4: "py_int (of_int 4 * (- 1/2)) < 0 \<or> 4 < py_int (of_int 4 * (- 1/2))"
    by (simp add: py_int_def)
  note t1 = no_validation_of_configuration[where K = 5 and L = 4
      and objective_function = example_objective and density = "1/2" and ?f32.0 = "\<lambda>x. x"
      and words = example_words and batch_size = 2 and bracelet_fc = example_bracelet_fc
      and Necklaces = example_Necklaces, THEN conjunct1, rule_format, OF h1]
  note t2 = no_validation_of_configuration[where K = 4 and L = 4
      and objective_function = example_objective and density = "1/2" and batch_size = 0
      and bracelet_fc = example_bracelet_fc
      and Necklaces = example_Necklaces, THEN conjunct2, THEN conjunct1, rule_format, OF h2]
  note t3 = no_validation_of_configuration[where M = 4 and density = "3/2" and batch_size = 8
      and filename = None and rate = "\<lambda>c. 0", THEN conjunct2, THEN conjunct2, rule_format, OF h3]
  note t4 = no_validation_of_configuration[where M = 4 and density = "- 1/2" and batch_size = 8
      and filename = None and rate = "\<lambda>c. 0", THEN conjunct2, THEN conjunct2, rule_format, OF h4]
  from t1 t2 t3 t4 show ?thesis by blast
qed

section \<open>Runs with objectives that agree on the candidates\<close>












section \<open>What \<open>update\<close> is called with\<close>















section \<open>Two runs with the same arguments\<close>



end
